theory Spec2Isabelle
  imports Complex_Main "HOL-Library.Word" "HOL-Library.Sublist"
begin

section \<open>Values exchanged with the servers\<close>

text \<open>
  Both scripts talk JSON. A parsed JSON document is the Python value that
  \<^verbatim>\<open>json.loads\<close> returns: \<^verbatim>\<open>None\<close>, a bool, an int
  (unbounded), a float, a str, a list or a dict with str keys. A dict is kept as the list
  of its items in insertion order; a Python dict has each key once. A float is kept by its
  exact value: every finite double is a rational number, and comparison of an int with a
  float is exact in Python.
\<close>

datatype pyfloat = Finite rat | PosInf | NegInf | NaN

datatype json =
    JNull
  | JBool bool
  | JInt int
  | JFloat pyfloat
  | JStr string
  | JList "json list"
  | JObj "(string \<times> json) list"

text \<open>
  The exceptions that the two scripts can meet, all of them subclasses of Python's
  \<^verbatim>\<open>Exception\<close>. \<open>OSError\<close> stands for a failure of the transport
  (\<^verbatim>\<open>URLError\<close>, \<^verbatim>\<open>HTTPError\<close>,
  \<^verbatim>\<open>requests.RequestException\<close>), \<open>ValueError\<close> for a reply that is not
  UTF-8 or not JSON (\<^verbatim>\<open>UnicodeDecodeError\<close>, \<^verbatim>\<open>JSONDecodeError\<close>);
  both carry the library's message.
\<close>

datatype exn =
    KeyError json
  | TypeError
  | IndexError
  | OSError string
  | ValueError string

section \<open>Python's operators on parsed JSON values\<close>

text \<open>
  The scripts use \<^verbatim>\<open>x in c\<close>, \<^verbatim>\<open>c[k]\<close> and
  \<^verbatim>\<open>for x in c\<close> on whatever the server sent. Python decides by the run-time
  type of \<open>c\<close>, and raises where the operation does not apply.
\<close>

text \<open>The numeric value of a bool, int or float (\<^verbatim>\<open>True == 1\<close>).\<close>

fun num_val :: "json \<Rightarrow> pyfloat option" where
  "num_val (JBool b) = Some (Finite (if b then 1 else 0))"
| "num_val (JInt i) = Some (Finite (of_int i))"
| "num_val (JFloat f) = Some f"
| "num_val _ = None"

text \<open>
  The comparison that \<^verbatim>\<open>in\<close> makes between an item and the value looked for,
  and that \<^verbatim>\<open>==\<close> makes between the items of two lists or dicts: the same
  object, or equal. Numbers are equal by value, lists item by item, dicts by keys and
  values whatever the order. Values of two replies are never the same object, except the
  constants; among them is the NaN of \<^verbatim>\<open>json.loads\<close>, which is one object
  (\<^verbatim>\<open>json.decoder.NaN\<close>) and so passes the comparison with itself.
\<close>

fun py_eq :: "json \<Rightarrow> json \<Rightarrow> bool" where
  "py_eq JNull JNull = True"
| "py_eq (JStr s) (JStr t) = (s = t)"
| "py_eq (JList xs) (JList ys) = list_all2 py_eq xs ys"
| "py_eq (JObj a) (JObj b) =
     (length a = length b \<and>
      list_all (\<lambda>(k, v). case map_of b k of None \<Rightarrow> False | Some w \<Rightarrow> py_eq v w) a)"
| "py_eq x y =
     (case (num_val x, num_val y) of
        (Some p, Some q) \<Rightarrow> p = q
      | _ \<Rightarrow> False)"

text \<open>A list or a dict cannot be hashed, so it cannot be looked up in a dict.\<close>

fun hashable :: "json \<Rightarrow> bool" where
  "hashable (JList _) = False"
| "hashable (JObj _) = False"
| "hashable _ = True"

text \<open>\<^verbatim>\<open>x in c\<close>.\<close>

fun py_contains :: "json \<Rightarrow> json \<Rightarrow> exn + bool" where
  "py_contains x (JObj kvs) =
     (if \<not> hashable x then Inl TypeError
      else case x of JStr s \<Rightarrow> Inr (s \<in> set (map fst kvs)) | _ \<Rightarrow> Inr False)"
| "py_contains x (JList xs) = Inr (list_ex (\<lambda>y. py_eq y x) xs)"
| "py_contains x (JStr s) =
     (case x of JStr t \<Rightarrow> Inr (sublist t s) | _ \<Rightarrow> Inl TypeError)"
| "py_contains x _ = Inl TypeError"

text \<open>\<^verbatim>\<open>xs[i]\<close> on a sequence: a negative index counts from the end.\<close>

definition py_index :: "'a list \<Rightarrow> int \<Rightarrow> exn + 'a" where
  "py_index xs i =
     (if 0 \<le> i \<and> i < int (length xs) then Inr (xs ! nat i)
      else if i < 0 \<and> - int (length xs) \<le> i then Inr (xs ! nat (int (length xs) + i))
      else Inl IndexError)"

text \<open>\<^verbatim>\<open>c[k]\<close>.\<close>

fun py_getitem :: "json \<Rightarrow> json \<Rightarrow> exn + json" where
  "py_getitem (JObj kvs) k =
     (if \<not> hashable k then Inl TypeError
      else case k of
             JStr s \<Rightarrow> (case map_of kvs s of None \<Rightarrow> Inl (KeyError k) | Some v \<Rightarrow> Inr v)
           | _ \<Rightarrow> Inl (KeyError k))"
| "py_getitem (JList xs) k =
     (case k of
        JInt i \<Rightarrow> py_index xs i
      | JBool b \<Rightarrow> py_index xs (if b then 1 else 0)
      | _ \<Rightarrow> Inl TypeError)"
| "py_getitem (JStr s) k =
     (case k of
        JInt i \<Rightarrow> map_sum id (\<lambda>c. JStr [c]) (py_index s i)
      | JBool b \<Rightarrow> map_sum id (\<lambda>c. JStr [c]) (py_index s (if b then 1 else 0))
      | _ \<Rightarrow> Inl TypeError)"
| "py_getitem _ k = Inl TypeError"

text \<open>The items that \<^verbatim>\<open>for x in c\<close> visits: the keys of a dict, in order.\<close>

fun py_iter :: "json \<Rightarrow> exn + json list" where
  "py_iter (JObj kvs) = Inr (map (\<lambda>(k, v). JStr k) kvs)"
| "py_iter (JList xs) = Inr xs"
| "py_iter (JStr s) = Inr (map (\<lambda>c. JStr [c]) s)"
| "py_iter _ = Inl TypeError"

type_synonym bytes = "8 word list"

section \<open>generate\_music.py\<close>

text \<open>\<^verbatim>\<open>str(n)\<close> for an int: decimal digits, with a minus sign when negative.\<close>

fun str_nat :: "nat \<Rightarrow> string" where
  "str_nat n =
     (if n < 10 then [''0123456789'' ! n]
      else str_nat (n div 10) @ [''0123456789'' ! (n mod 10)])"

declare str_nat.simps [simp del]

definition str_int :: "int \<Rightarrow> string" where
  "str_int i = (if i < 0 then CHR ''-'' # str_nat (nat (- i)) else str_nat (nat i))"

text \<open>What \<^verbatim>\<open>requests.post(url, headers=headers, json=data)\<close> sends.\<close>

record request =
  url :: string
  headers :: "(string \<times> string) list"
  json_body :: json

text \<open>
  The fields of a \<^verbatim>\<open>requests.Response\<close> that the script reads.
  \<open>text'\<close> (the attribute \<^verbatim>\<open>text\<close>) is the library's decoding of \<open>content\<close>.
\<close>

record response =
  status_code :: int
  content :: bytes
  text' :: string

text \<open>
  The world of the script: the lines printed (one entry per \<^verbatim>\<open>print\<close> call),
  the files by path, the directories that exist, and the requests sent so far.
  \<open>dirs\<close> holds every string that names an existing directory when it stands before
  the last slash of a path; a path without a slash lies in the current directory.
\<close>

record world =
  stdout :: "string list"
  files :: "string \<rightharpoonup> bytes"
  dirs :: "string set"
  sent :: "request list"

text \<open>The part of a path before its last slash, if it has one.\<close>

definition dir_part :: "string \<Rightarrow> string option" where
  "dir_part path =
     (if CHR ''/'' \<in> set path
      then Some (rev (tl (dropWhile (\<lambda>c. c \<noteq> CHR ''/'') (rev path))))
      else None)"

text \<open>
  \<^verbatim>\<open>open(path, "wb")\<close> creates or truncates the file when the directory of the
  path exists, and raises \<^verbatim>\<open>FileNotFoundError\<close> (an \<^verbatim>\<open>OSError\<close>)
  when it does not. The single \<^verbatim>\<open>write\<close> then stores the whole buffer.
  Failures that the argument does not decide (permissions, a full disk, a directory
  standing where the file should be) are not part of this model.
\<close>

definition openable :: "world \<Rightarrow> string \<Rightarrow> bool" where
  "openable w path = (case dir_part path of None \<Rightarrow> True | Some d \<Rightarrow> d \<in> dirs w)"

text \<open>A file system in which every file lies in a directory that exists.\<close>

definition wf_world :: "world \<Rightarrow> bool" where
  "wf_world w = (\<forall>p. files w p \<noteq> None \<longrightarrow> openable w p)"

text \<open>
  How the process ends: \<open>Exited c\<close> with exit code \<open>c\<close>
  (\<^verbatim>\<open>sys.exit(c)\<close>, or \<open>0\<close> at the end of the module), or \<open>Uncaught e\<close>
  when an exception leaves the module (the interpreter prints the traceback and the exit
  code is \<open>1\<close>).
\<close>

datatype status = Exited int | Uncaught exn

definition usage :: string where
  "usage = ''Usage: python generate_music.py <API_KEY> <PROMPT> <FILENAME>''"

definition api_url :: string where
  "api_url = ''https://api.elevenlabs.io/v1/text-to-music''"

text \<open>
  The request of lines 16 to 29: the fixed address, the key as a header, the prompt as
  the JSON body.
\<close>

definition music_request :: "string \<Rightarrow> string \<Rightarrow> request" where
  "music_request api_key prompt =
     \<lparr>url = api_url,
      headers = [(''xi-api-key'', api_key), (''Content-Type'', ''application/json'')],
      json_body = JObj [(''text'', JStr prompt)]\<rparr>"

text \<open>
  The module body. \<open>post\<close> is the remote service as seen through
  \<^verbatim>\<open>requests.post\<close>: it raises or returns a response. \<open>argv\<close> is
  \<^verbatim>\<open>sys.argv\<close>, the script name first. Nothing catches an exception here:
  one raised by \<^verbatim>\<open>requests.post\<close> or by \<^verbatim>\<open>open\<close> ends the
  run where it is raised.
\<close>

definition generate_music ::
  "(request \<Rightarrow> exn + response) \<Rightarrow> string list \<Rightarrow> world \<Rightarrow> world \<times> status" where
  "generate_music post argv w =
     (if length argv < 4 then
        (w\<lparr>stdout := stdout w @ [usage]\<rparr>, Exited 1)
      else
        let api_key = argv ! 1;
            prompt = argv ! 2;
            filename = argv ! 3;
            req = music_request api_key prompt;
            w1 = w\<lparr>stdout := stdout w @ [''Generating music for: '' @ prompt @ ''...'']\<rparr>;
            w2 = w1\<lparr>sent := sent w1 @ [req]\<rparr>
        in case post req of
             Inl e \<Rightarrow> (w2, Uncaught e)
           | Inr resp \<Rightarrow>
               if status_code resp = 200 then
                 if openable w2 (filename @ ''.mp3'') then
                   (w2\<lparr>files := (files w2)(filename @ ''.mp3'' \<mapsto> content resp),
                       stdout := stdout w2 @ [''Success! Saved to '' @ filename @ ''.mp3'']\<rparr>,
                    Exited 0)
                 else (w2, Uncaught (OSError ''No such file or directory''))
               else
                 (w2\<lparr>stdout := stdout w2 @ [''Error: '' @ str_int (status_code resp), text' resp]\<rparr>,
                  Exited 0))"

text \<open>The positional arguments of an invocation: everything after the script name.\<close>

definition positional :: "string list \<Rightarrow> string list" where
  "positional argv = drop 1 argv"

section \<open>comfy\_gen.py\<close>

text \<open>
  What the script does to the outside, in order. A text built by an f-string is kept as
  its literal part and the value formatted into it: \<open>Fmt p v\<close> is
  \<^verbatim>\<open>f"p{v}"\<close>.
\<close>

datatype ftext = Lit string | Fmt string json | FmtE string exn

datatype event =
    Post string json
  | Get ftext
  | Print ftext
  | Sleep nat

text \<open>
  The local server. A call of \<^verbatim>\<open>urlopen\<close>, followed by
  \<^verbatim>\<open>json.loads(f.read().decode('utf-8'))\<close>, raises or gives the parsed reply.
  \<open>get_reply i\<close> answers the status request that follows \<open>i\<close> earlier ones.
\<close>

record server =
  post_reply :: "exn + json"
  get_reply :: "nat \<Rightarrow> exn + json"

definition queue_prompt :: "server \<Rightarrow> json \<Rightarrow> event list \<times> (exn + json)" where
  "queue_prompt srv prompt =
     (let p = JObj [(''prompt'', prompt)]
      in ([Post ''http://127.0.0.1:8000/prompt'' p], post_reply srv))"

definition check_status :: "server \<Rightarrow> nat \<Rightarrow> json \<Rightarrow> event list \<times> (exn + json)" where
  "check_status srv i prompt_id =
     ([Get (Fmt ''http://127.0.0.1:8000/history/'' prompt_id)], get_reply srv i)"

definition workflow :: json where
  "workflow = JObj [
     (''1'', JObj [
        (''inputs'', JObj [
           (''model'', JStr ''wan2.5-t2v-preview''),
           (''prompt'', JStr ''Minimalist game studio logo splash, 16:9 at 480p. The entire frame is solid black. In the center, a wide, single-line logo with the word BadMadBrax is shown. Directly beneath it, a thin rectangular outline with the same width acts like an underline and contains the smaller, squat and slightly elongated word GAMES. Both are centered and fill most of the horizontal space. All letters are solid neon colors in vibrant cyan and molten pink, with some letter edges and curves shaped like circular saw blades. There are no extra visible shapes such as triangles or squares inside the letters. The logo gently pulses in brightness and slightly scales in and out in time with a quiet, distant EDM beat, moving smoothly. The camera stays almost perfectly still, with only tiny micro-movements.''),
           (''size'', JStr ''480p: 16:9 (832x480)''),
           (''duration'', JInt 5),
           (''seed'', JInt 42),
           (''prompt_extend'', JBool True)]),
        (''class_type'', JStr ''WanTextToVideoApi'')]),
     (''2'', JObj [
        (''inputs'', JObj [
           (''video'', JList [JStr ''1'', JInt 0]),
           (''filename_prefix'', JStr ''splash_gen''),
           (''format'', JStr ''mp4''),
           (''codec'', JStr ''h264'')]),
        (''class_type'', JStr ''SaveVideo'')])]"

text \<open>
  The inner loop, \<^verbatim>\<open>for video in outputs[node_id]['videos']\<close>: the lines printed
  and the exception that stopped it, if any.
\<close>

fun print_videos :: "json list \<Rightarrow> event list \<times> exn option" where
  "print_videos [] = ([], None)"
| "print_videos (video # rest) =
     (case py_getitem video (JStr ''filename'') of
        Inl e \<Rightarrow> ([], Some e)
      | Inr name \<Rightarrow>
          (case print_videos rest of
             (evs, r) \<Rightarrow> (Print (Fmt ''Video saved as: '' name) # evs, r)))"

text \<open>
  The body of the outer loop for one \<open>node_id\<close>. The source evaluates
  \<^verbatim>\<open>outputs[node_id]\<close> twice, with the same result.
\<close>

definition node_videos :: "json \<Rightarrow> json \<Rightarrow> event list \<times> exn option" where
  "node_videos outputs node_id =
     (case py_getitem outputs node_id of
        Inl e \<Rightarrow> ([], Some e)
      | Inr slot \<Rightarrow>
          (case py_contains (JStr ''videos'') slot of
             Inl e \<Rightarrow> ([], Some e)
           | Inr False \<Rightarrow> ([], None)
           | Inr True \<Rightarrow>
               (case py_getitem slot (JStr ''videos'') of
                  Inl e \<Rightarrow> ([], Some e)
                | Inr videos \<Rightarrow>
                    (case py_iter videos of
                       Inl e \<Rightarrow> ([], Some e)
                     | Inr vs \<Rightarrow> print_videos vs))))"

text \<open>The outer loop, \<^verbatim>\<open>for node_id in outputs\<close>.\<close>

fun for_nodes :: "json \<Rightarrow> json list \<Rightarrow> event list \<times> exn option" where
  "for_nodes outputs [] = ([], None)"
| "for_nodes outputs (node_id # rest) =
     (case node_videos outputs node_id of
        (evs, Some e) \<Rightarrow> (evs, Some e)
      | (evs, None) \<Rightarrow>
          (case for_nodes outputs rest of (evs', r) \<Rightarrow> (evs @ evs', r)))"

text \<open>
  Result extraction, lines 50 to 54, on the result record \<^verbatim>\<open>history[prompt_id]\<close>.
\<close>

definition extract_results :: "json \<Rightarrow> event list \<times> exn option" where
  "extract_results record =
     (case py_getitem record (JStr ''outputs'') of
        Inl e \<Rightarrow> ([], Some e)
      | Inr outputs \<Rightarrow>
          (case py_iter outputs of
             Inl e \<Rightarrow> ([], Some e)
           | Inr node_ids \<Rightarrow> for_nodes outputs node_ids))"

text \<open>
  How a piece of the script ends: it ran to its end, an exception left it, or it is still
  in the loop after as many rounds as were looked at.
\<close>

datatype outcome = Completed | Raised exn | Pending

text \<open>
  The \<^verbatim>\<open>while True\<close> loop. Nothing in the source bounds it, so the model counts
  rounds: \<open>poll n\<close> runs at most \<open>n\<close> rounds and is \<open>Pending\<close> when the loop
  wants another one. \<open>i\<close> is the number of status requests made before.
\<close>

fun poll :: "nat \<Rightarrow> server \<Rightarrow> json \<Rightarrow> nat \<Rightarrow> event list \<times> outcome" where
  "poll 0 srv prompt_id i = ([], Pending)"
| "poll (Suc n) srv prompt_id i =
     (case check_status srv i prompt_id of
        (ev, Inl e) \<Rightarrow> (ev, Raised e)
      | (ev, Inr history) \<Rightarrow>
          (case py_contains prompt_id history of
             Inl e \<Rightarrow> (ev, Raised e)
           | Inr True \<Rightarrow>
               (case py_getitem history prompt_id of
                  Inl e \<Rightarrow> (ev @ [Print (Lit ''Generation complete!'')], Raised e)
                | Inr record \<Rightarrow>
                    (case extract_results record of
                       (evs, Some e) \<Rightarrow>
                         (ev @ Print (Lit ''Generation complete!'') # evs, Raised e)
                     | (evs, None) \<Rightarrow>
                         (ev @ Print (Lit ''Generation complete!'') # evs, Completed)))
           | Inr False \<Rightarrow>
               (case poll n srv prompt_id (Suc i) of
                  (evs, oc) \<Rightarrow> (ev @ Sleep 5 # evs, oc))))"

text \<open>The statements inside \<^verbatim>\<open>try\<close>, lines 40 to 56.\<close>

definition try_body :: "nat \<Rightarrow> server \<Rightarrow> event list \<times> outcome" where
  "try_body n srv =
     (case queue_prompt srv workflow of
        (ev, Inl e) \<Rightarrow> (Print (Lit ''Queuing generation...'') # ev, Raised e)
      | (ev, Inr result) \<Rightarrow>
          (case py_getitem result (JStr ''prompt_id'') of
             Inl e \<Rightarrow> (Print (Lit ''Queuing generation...'') # ev, Raised e)
           | Inr prompt_id \<Rightarrow>
               (case poll n srv prompt_id 0 of
                  (evs, oc) \<Rightarrow>
                    (Print (Lit ''Queuing generation...'') # ev
                       @ [Print (Fmt ''Prompt queued! ID: '' prompt_id),
                          Print (Lit ''Waiting for completion (this may take a few minutes)...'')]
                       @ evs,
                     oc))))"

text \<open>
  The module: the \<^verbatim>\<open>try\<close> with its \<^verbatim>\<open>except Exception as e\<close>. The
  result is what happened within \<open>n\<close> rounds of the loop, and how the process ended
  (\<open>None\<close> while it is still polling).
\<close>

definition comfy_gen :: "nat \<Rightarrow> server \<Rightarrow> event list \<times> status option" where
  "comfy_gen n srv =
     (case try_body n srv of
        (evs, Raised e) \<Rightarrow> (evs @ [Print (FmtE ''Error: '' e)], Some (Exited 0))
      | (evs, Completed) \<Rightarrow> (evs, Some (Exited 0))
      | (evs, Pending) \<Rightarrow> (evs, None))"

text \<open>The requests in a run.\<close>

fun is_post :: "event \<Rightarrow> bool" where
  "is_post (Post _ _) = True"
| "is_post _ = False"

fun is_get :: "event \<Rightarrow> bool" where
  "is_get (Get _) = True"
| "is_get _ = False"

fun is_sleep :: "event \<Rightarrow> bool" where
  "is_sleep (Sleep _) = True"
| "is_sleep _ = False"

fun is_print :: "event \<Rightarrow> bool" where
  "is_print (Print _) = True"
| "is_print _ = False"

text \<open>The identifiers that the status requests of a run were made for.\<close>

fun polled_ids :: "event list \<Rightarrow> json list" where
  "polled_ids [] = []"
| "polled_ids (Get (Fmt p v) # evs) = v # polled_ids evs"
| "polled_ids (ev # evs) = polled_ids evs"

text \<open>A non-empty job identifier string.\<close>

fun nonempty_id :: "json \<Rightarrow> bool" where
  "nonempty_id (JStr s) = (s \<noteq> [])"
| "nonempty_id _ = False"

text \<open>The line that the handler prints.\<close>

fun is_error_line :: "event \<Rightarrow> bool" where
  "is_error_line (Print (FmtE p e)) = True"
| "is_error_line _ = False"

subsection \<open>Shapes of a result record\<close>

text \<open>An artifact descriptor: a mapping with a \<^verbatim>\<open>filename\<close> field.\<close>

fun has_filename :: "json \<Rightarrow> bool" where
  "has_filename (JObj kvs) = (''filename'' \<in> set (map fst kvs))"
| "has_filename _ = False"

fun filename_of :: "json \<Rightarrow> json" where
  "filename_of (JObj kvs) = (case map_of kvs ''filename'' of Some v \<Rightarrow> v | None \<Rightarrow> JNull)"
| "filename_of _ = JNull"

text \<open>
  What the script looks at in one output slot: the list under the key
  \<^verbatim>\<open>videos\<close>, when the slot is a mapping that has it.
\<close>

fun videos_of :: "json \<Rightarrow> json list" where
  "videos_of (JObj entries) =
     (case map_of entries ''videos'' of Some (JList vs) \<Rightarrow> vs | _ \<Rightarrow> [])"
| "videos_of _ = []"

text \<open>
  A slot as the server produces it: a mapping; when it has the key
  \<^verbatim>\<open>videos\<close>, a list of artifact descriptors is stored there.
\<close>

fun video_slot_ok :: "json \<Rightarrow> bool" where
  "video_slot_ok (JObj entries) =
     (case map_of entries ''videos'' of
        None \<Rightarrow> True
      | Some (JList vs) \<Rightarrow> list_all has_filename vs
      | Some _ \<Rightarrow> False)"
| "video_slot_ok _ = False"

text \<open>
  The specification's reading of result extraction, in its own words: the artifact
  descriptors found in any output slot shaped as a list containing entries with a
  filename field, whatever the name under which the slot holds the list.
\<close>

fun spec_descriptor_lists :: "json \<Rightarrow> json list list" where
  "spec_descriptor_lists (JObj entries) =
     concat (map (\<lambda>(k, v). case v of JList ds \<Rightarrow> [ds] | _ \<Rightarrow> []) entries)"
| "spec_descriptor_lists (JList ds) = [ds]"
| "spec_descriptor_lists _ = []"

definition spec_artifact_descriptors :: "json \<Rightarrow> json list" where
  "spec_artifact_descriptors record =
     (case py_getitem record (JStr ''outputs'') of
        Inr (JObj nodes) \<Rightarrow>
          concat (map (\<lambda>(node_id, slot).
                         concat (map (filter has_filename) (spec_descriptor_lists slot)))
                      nodes)
      | _ \<Rightarrow> [])"

text \<open>The line printed for one artifact descriptor.\<close>

abbreviation video_line :: "json \<Rightarrow> event" where
  "video_line d \<equiv> Print (Fmt ''Video saved as: '' (filename_of d))"

text \<open>
  The pieces of a run of comfy\_gen.py: what submission prints and sends, what follows
  once the identifier is known, the rounds that found the identifier absent, the request
  of a round, the line of the completed job and the line of the handler.
\<close>

abbreviation submit_events :: "event list" where
  "submit_events \<equiv>
     [Print (Lit ''Queuing generation...''),
      Post ''http://127.0.0.1:8000/prompt'' (JObj [(''prompt'', workflow)])]"

abbreviation queued_events :: "json \<Rightarrow> event list" where
  "queued_events prompt_id \<equiv>
     [Print (Fmt ''Prompt queued! ID: '' prompt_id),
      Print (Lit ''Waiting for completion (this may take a few minutes)...'')]"

abbreviation status_get :: "json \<Rightarrow> event" where
  "status_get prompt_id \<equiv> Get (Fmt ''http://127.0.0.1:8000/history/'' prompt_id)"

abbreviation waiting_rounds :: "nat \<Rightarrow> json \<Rightarrow> event list" where
  "waiting_rounds k prompt_id \<equiv> concat (replicate k [status_get prompt_id, Sleep 5])"

abbreviation complete_line :: event where
  "complete_line \<equiv> Print (Lit ''Generation complete!'')"

abbreviation error_line :: "exn \<Rightarrow> event" where
  "error_line e \<equiv> Print (FmtE ''Error: '' e)"

section \<open>Properties of generate\_music.py\<close>

lemma str_int_404: "str_int 404 = ''404''"
  by (simp add: str_int_def str_nat.simps)

text \<open>
  C6: whenever the script is invoked with fewer than three positional arguments it prints
  the usage message and exits with code 1; no request has been sent and no file has been
  touched.
\<close>

theorem usage_on_missing_arguments:
  assumes "length (positional argv) < 3"
  shows "generate_music post argv w = (w\<lparr>stdout := stdout w @ [usage]\<rparr>, Exited 1)
         \<and> sent (fst (generate_music post argv w)) = sent w
         \<and> files (fst (generate_music post argv w)) = files w"
proof -
  from assms have "length argv < 4" by (simp add: positional_def)
  then show ?thesis by (simp add: generate_music_def)
qed

theorem usage_on_missing_arguments_witness:
  "length (positional [''generate_music.py'', ''key'', ''a tune'']) < 3
   \<and> generate_music (\<lambda>r. Inl (OSError ''unreachable'')) [''generate_music.py'', ''key'', ''a tune'']
        \<lparr>stdout = [], files = Map.empty, dirs = {}, sent = []\<rparr>
      = (\<lparr>stdout = [usage], files = Map.empty, dirs = {}, sent = []\<rparr>, Exited 1)"
  using usage_on_missing_arguments
    [of "[''generate_music.py'', ''key'', ''a tune'']" "\<lambda>r. Inl (OSError ''unreachable'')"
        "\<lparr>stdout = [], files = Map.empty, dirs = {}, sent = []\<rparr>"]
  by (simp add: positional_def)

text \<open>
  C4: for every body \<open>B\<close>, when the POST returns status 200 with body \<open>B\<close> and the
  filename stem is \<open>out\<close>, the file \<open>out.mp3\<close> exists after the run and holds exactly
  \<open>B\<close>; the process ends with exit code 0.
\<close>

theorem success_writes_body:
  assumes "4 \<le> length argv" and "argv ! 3 = ''out''"
    and "post (music_request (argv ! 1) (argv ! 2)) = Inr resp"
    and "status_code resp = 200" and "content resp = B"
  shows "files (fst (generate_music post argv w)) ''out.mp3'' = Some B
         \<and> snd (generate_music post argv w) = Exited 0"
proof -
  have "dir_part ''out.mp3'' = None" by (simp add: dir_part_def)
  then have "openable w' ''out.mp3''" for w' :: world by (simp add: openable_def)
  with assms show ?thesis by (simp add: generate_music_def Let_def)
qed

theorem success_writes_body_witness:
  "files (fst (generate_music
       (\<lambda>r. Inr \<lparr>status_code = 200, content = [73, 68, 51], text' = ''ID3''\<rparr>)
       [''generate_music.py'', ''key'', ''a tune'', ''out'']
       \<lparr>stdout = [], files = Map.empty, dirs = {}, sent = []\<rparr>)) ''out.mp3''
   = Some [73, 68, 51]"
  using success_writes_body
    [of "[''generate_music.py'', ''key'', ''a tune'', ''out'']"
        "\<lambda>r. Inr \<lparr>status_code = 200, content = [73, 68, 51], text' = ''ID3''\<rparr>"
        "\<lparr>status_code = 200, content = [73, 68, 51], text' = ''ID3''\<rparr>"
        "[73, 68, 51]" "\<lparr>stdout = [], files = Map.empty, dirs = {}, sent = []\<rparr>"]
  by simp

text \<open>
  C5: for every response whose status is not 200 the script creates no file, prints the
  status code and the body text after its progress line, raises nothing and ends with
  exit code 0.
\<close>

theorem failure_prints_diagnostic:
  assumes "4 \<le> length argv"
    and "post (music_request (argv ! 1) (argv ! 2)) = Inr resp"
    and "status_code resp \<noteq> 200"
  shows "generate_music post argv w =
           (w\<lparr>stdout := stdout w @ [''Generating music for: '' @ argv ! 2 @ ''...'',
                                     ''Error: '' @ str_int (status_code resp), text' resp],
               sent := sent w @ [music_request (argv ! 1) (argv ! 2)]\<rparr>,
            Exited 0)
         \<and> files (fst (generate_music post argv w)) = files w"
  using assms by (simp add: generate_music_def Let_def)

theorem failure_prints_diagnostic_witness:
  "generate_music
       (\<lambda>r. Inr \<lparr>status_code = 404, content = [], text' = ''Not Found''\<rparr>)
       [''generate_music.py'', ''key'', ''a tune'', ''out'']
       \<lparr>stdout = [], files = Map.empty, dirs = {}, sent = []\<rparr>
   = (\<lparr>stdout = [''Generating music for: a tune...'', ''Error: 404'', ''Not Found''],
       files = Map.empty,
       dirs = {},
       sent = [music_request ''key'' ''a tune'']\<rparr>, Exited 0)"
  using failure_prints_diagnostic
    [of "[''generate_music.py'', ''key'', ''a tune'', ''out'']"
        "\<lambda>r. Inr \<lparr>status_code = 404, content = [], text' = ''Not Found''\<rparr>"
        "\<lparr>status_code = 404, content = [], text' = ''Not Found''\<rparr>"
        "\<lparr>stdout = [], files = Map.empty, dirs = {}, sent = []\<rparr>"]
  by (simp add: str_int_404)

text \<open>
  C9: on a 200 response the script touches no file but \<open>stem.mp3\<close>: every other path
  holds after the run what it held before. A file that already exists under that name is
  replaced as a whole by the response body. In full: when the directory of the path
  exists the files after the run are the files before with that one path set to the body,
  and when it does not exist \<^verbatim>\<open>open\<close> raises and no file changes at all.
\<close>

theorem success_touches_one_file:
  assumes "4 \<le> length argv"
    and "post (music_request (argv ! 1) (argv ! 2)) = Inr resp"
    and "status_code resp = 200"
  shows "(\<forall>p. p \<noteq> argv ! 3 @ ''.mp3'' \<longrightarrow>
            files (fst (generate_music post argv w)) p = files w p)
         \<and> (wf_world w \<longrightarrow> files w (argv ! 3 @ ''.mp3'') \<noteq> None \<longrightarrow>
            files (fst (generate_music post argv w)) (argv ! 3 @ ''.mp3'') = Some (content resp))
         \<and> files (fst (generate_music post argv w))
             = (if openable w (argv ! 3 @ ''.mp3'')
                then (files w)(argv ! 3 @ ''.mp3'' \<mapsto> content resp)
                else files w)
         \<and> snd (generate_music post argv w)
             = (if openable w (argv ! 3 @ ''.mp3'') then Exited 0
                else Uncaught (OSError ''No such file or directory''))"
proof -
  let ?path = "argv ! 3 @ ''.mp3''"
  let ?w2 = "w\<lparr>stdout := stdout w @ [''Generating music for: '' @ argv ! 2 @ ''...''],
               sent := sent w @ [music_request (argv ! 1) (argv ! 2)]\<rparr>"
  have op: "openable ?w2 ?path = openable w ?path"
    by (simp add: openable_def split: option.splits)
  have run: "files (fst (generate_music post argv w))
             = (if openable w ?path then (files w)(?path \<mapsto> content resp) else files w)"
    using assms op by (simp add: generate_music_def Let_def)
  have st: "snd (generate_music post argv w)
             = (if openable w ?path then Exited 0
                else Uncaught (OSError ''No such file or directory''))"
    using assms op by (simp add: generate_music_def Let_def)
  have frame: "\<forall>p. p \<noteq> ?path \<longrightarrow> files (fst (generate_music post argv w)) p = files w p"
    by (simp add: run)
  have repl: "wf_world w \<longrightarrow> files w ?path \<noteq> None \<longrightarrow>
            files (fst (generate_music post argv w)) ?path = Some (content resp)"
    by (simp add: run wf_world_def)
  from frame repl run st show ?thesis by blast
qed

theorem success_touches_one_file_witness:
  "wf_world \<lparr>stdout = [], files = [''music/out.mp3'' \<mapsto> [1, 2, 3, 4, 5], ''notes.txt'' \<mapsto> [7]],
             dirs = {''music''}, sent = []\<rparr>
   \<and> files (fst (generate_music
       (\<lambda>r. Inr \<lparr>status_code = 200, content = [73, 68, 51], text' = ''ID3''\<rparr>)
       [''generate_music.py'', ''key'', ''a tune'', ''music/out'']
       \<lparr>stdout = [], files = [''music/out.mp3'' \<mapsto> [1, 2, 3, 4, 5], ''notes.txt'' \<mapsto> [7]],
         dirs = {''music''}, sent = []\<rparr>)) ''music/out.mp3''
     = Some [73, 68, 51]
   \<and> files (fst (generate_music
       (\<lambda>r. Inr \<lparr>status_code = 200, content = [73, 68, 51], text' = ''ID3''\<rparr>)
       [''generate_music.py'', ''key'', ''a tune'', ''music/out'']
       \<lparr>stdout = [], files = [''music/out.mp3'' \<mapsto> [1, 2, 3, 4, 5], ''notes.txt'' \<mapsto> [7]],
         dirs = {''music''}, sent = []\<rparr>)) ''notes.txt''
     = Some [7]"
proof -
  let ?w = "\<lparr>stdout = [], files = [''music/out.mp3'' \<mapsto> [1, 2, 3, 4, 5], ''notes.txt'' \<mapsto> [7 :: 8 word]],
             dirs = {''music''}, sent = []\<rparr>"
  let ?resp = "\<lparr>status_code = 200, content = [73, 68, 51 :: 8 word], text' = ''ID3''\<rparr>"
  let ?post = "\<lambda>r :: request. (Inr ?resp :: exn + response)"
  let ?argv = "[''generate_music.py'', ''key'', ''a tune'', ''music/out'']"
  let ?after = "files (fst (generate_music ?post ?argv ?w))"
  have d1: "dir_part ''music/out.mp3'' = Some ''music''" by (simp add: dir_part_def)
  have d2: "dir_part ''notes.txt'' = None" by (simp add: dir_part_def)
  have wf: "wf_world ?w" by (simp add: wf_world_def openable_def d1 d2)
  have h1: "4 \<le> length ?argv" by simp
  have h2: "?post (music_request (?argv ! 1) (?argv ! 2)) = Inr ?resp" by simp
  have h3: "status_code ?resp = 200" by simp
  note t = success_touches_one_file [OF h1 h2 h3, of ?w]
  from t have frame: "\<forall>p. p \<noteq> ?argv ! 3 @ ''.mp3'' \<longrightarrow> ?after p = files ?w p"
    by (rule conjunct1)
  from t have repl: "wf_world ?w \<longrightarrow> files ?w (?argv ! 3 @ ''.mp3'') \<noteq> None \<longrightarrow>
      ?after (?argv ! 3 @ ''.mp3'') = Some (content ?resp)"
    by blast
  have other: "''notes.txt'' \<noteq> ?argv ! 3 @ ''.mp3''" by simp
  from frame other have "?after ''notes.txt'' = files ?w ''notes.txt''" by blast
  then have a: "?after ''notes.txt'' = Some [7]" by simp
  have "files ?w (?argv ! 3 @ ''.mp3'') \<noteq> None" by simp
  with repl wf have "?after (?argv ! 3 @ ''.mp3'') = Some (content ?resp)" by blast
  then have b: "?after ''music/out.mp3'' = Some [73, 68, 51]" by simp
  from wf a b show ?thesis by blast
qed

lemma missing_directory_writes_nothing:
  "generate_music
       (\<lambda>r. Inr \<lparr>status_code = 200, content = [73, 68, 51], text' = ''ID3''\<rparr>)
       [''generate_music.py'', ''key'', ''a tune'', ''nodir/out'']
       \<lparr>stdout = [], files = Map.empty, dirs = {}, sent = []\<rparr>
   = (\<lparr>stdout = [''Generating music for: a tune...''], files = Map.empty, dirs = {},
       sent = [music_request ''key'' ''a tune'']\<rparr>,
      Uncaught (OSError ''No such file or directory''))"
  by (simp add: generate_music_def Let_def openable_def dir_part_def)

text \<open>
  C10: the script reads only the first three positional arguments: an invocation with
  three or more of them behaves exactly as the same invocation cut after the third (same
  request, same file, same output, same exit).
\<close>

theorem extra_arguments_ignored:
  assumes "3 \<le> length (positional argv)"
  shows "generate_music post argv w = generate_music post (take 4 argv) w"
proof -
  from assms have "4 \<le> length argv" by (simp add: positional_def)
  then show ?thesis by (simp add: generate_music_def Let_def)
qed

theorem extra_arguments_ignored_witness:
  "generate_music (\<lambda>r. Inr \<lparr>status_code = 200, content = [73, 68, 51], text' = ''ID3''\<rparr>)
     [''generate_music.py'', ''key'', ''a tune'', ''out'', ''--loud'', ''5'']
     \<lparr>stdout = [], files = Map.empty, dirs = {}, sent = []\<rparr>
   = generate_music (\<lambda>r. Inr \<lparr>status_code = 200, content = [73, 68, 51], text' = ''ID3''\<rparr>)
     [''generate_music.py'', ''key'', ''a tune'', ''out'']
     \<lparr>stdout = [], files = Map.empty, dirs = {}, sent = []\<rparr>"
  using extra_arguments_ignored
    [of "[''generate_music.py'', ''key'', ''a tune'', ''out'', ''--loud'', ''5'']"
        "\<lambda>r. Inr \<lparr>status_code = 200, content = [73, 68, 51], text' = ''ID3''\<rparr>"
        "\<lparr>stdout = [], files = Map.empty, dirs = {}, sent = []\<rparr>"]
  by (simp add: positional_def)

section \<open>Properties of comfy\_gen.py\<close>

subsection \<open>Result extraction only prints\<close>

lemma print_videos_prints: "list_all is_print (fst (print_videos vs))"
  by (induction vs) (auto split: sum.splits prod.splits)

lemma node_videos_prints: "list_all is_print (fst (node_videos outputs node_id))"
  by (auto simp: node_videos_def print_videos_prints split: sum.splits bool.splits)

lemma for_nodes_prints: "list_all is_print (fst (for_nodes outputs ns))"
proof (induction ns)
  case Nil
  show ?case by simp
next
  case (Cons n ns)
  have "list_all is_print (fst (node_videos outputs n))" by (rule node_videos_prints)
  with Cons show ?case
    by (auto split: prod.splits option.splits)
qed

lemma extract_results_prints: "list_all is_print (fst (extract_results rcd))"
  by (auto simp: extract_results_def for_nodes_prints split: sum.splits)

lemma prints_are_no_requests:
  "list_all is_print evs \<Longrightarrow> filter is_get evs = [] \<and> filter is_sleep evs = [] \<and> filter is_post evs = []"
proof (induction evs)
  case Nil
  show ?case by simp
next
  case (Cons ev evs)
  then show ?case by (cases ev) auto
qed

subsection \<open>Rounds of the polling loop\<close>

text \<open>For a reply that is a mapping, containing the identifier is having it as a key.\<close>

lemma contains_key: "py_contains (JStr s) (JObj kvs) = Inr (s \<in> set (map fst kvs))"
  by simp

lemma poll_absent_step:
  assumes "get_reply srv i = Inr h" and "py_contains prompt_id h = Inr False"
  shows "poll (Suc n) srv prompt_id i =
           (Get (Fmt ''http://127.0.0.1:8000/history/'' prompt_id) # Sleep 5 # fst (poll n srv prompt_id (Suc i)),
            snd (poll n srv prompt_id (Suc i)))"
  using assms by (simp add: check_status_def split: prod.splits)

lemma poll_absent_run:
  assumes "\<forall>j<k. \<exists>h. get_reply srv (i + j) = Inr h \<and> py_contains prompt_id h = Inr False"
  shows "poll (k + m) srv prompt_id i =
           (concat (replicate k [Get (Fmt ''http://127.0.0.1:8000/history/'' prompt_id), Sleep 5])
              @ fst (poll m srv prompt_id (i + k)),
            snd (poll m srv prompt_id (i + k)))"
  using assms
proof (induction k arbitrary: i)
  case 0
  show ?case by simp
next
  case (Suc k)
  from Suc.prems obtain h where h: "get_reply srv i = Inr h" "py_contains prompt_id h = Inr False"
    by force
  have "\<forall>j<k. \<exists>h. get_reply srv (Suc i + j) = Inr h \<and> py_contains prompt_id h = Inr False"
  proof (intro allI impI)
    fix j assume "j < k"
    then have "Suc j < Suc k" by simp
    with Suc.prems have "\<exists>h. get_reply srv (i + Suc j) = Inr h \<and> py_contains prompt_id h = Inr False"
      by blast
    then show "\<exists>h. get_reply srv (Suc i + j) = Inr h \<and> py_contains prompt_id h = Inr False"
      by simp
  qed
  from Suc.IH [OF this] have IH: "poll (k + m) srv prompt_id (Suc i) =
           (concat (replicate k [Get (Fmt ''http://127.0.0.1:8000/history/'' prompt_id), Sleep 5])
              @ fst (poll m srv prompt_id (Suc i + k)),
            snd (poll m srv prompt_id (Suc i + k)))" .
  have "poll (Suc k + m) srv prompt_id i = poll (Suc (k + m)) srv prompt_id i" by simp
  also have "\<dots> = (Get (Fmt ''http://127.0.0.1:8000/history/'' prompt_id) # Sleep 5 # fst (poll (k + m) srv prompt_id (Suc i)),
            snd (poll (k + m) srv prompt_id (Suc i)))"
    by (rule poll_absent_step [OF h])
  finally show ?case by (simp add: IH)
qed

lemma poll_ready_step:
  assumes "get_reply srv i = Inr h" and "py_contains prompt_id h = Inr True"
  shows "\<exists>evs oc. poll (Suc m) srv prompt_id i =
            (Get (Fmt ''http://127.0.0.1:8000/history/'' prompt_id)
               # Print (Lit ''Generation complete!'') # evs, oc)
          \<and> oc \<noteq> Pending \<and> list_all is_print evs"
proof (cases "py_getitem h prompt_id")
  case (Inl e)
  with assms show ?thesis by (simp add: check_status_def)
next
  case (Inr rcd)
  obtain evs r where er: "extract_results rcd = (evs, r)" by (cases "extract_results rcd")
  have "list_all is_print (fst (extract_results rcd))" by (rule extract_results_prints)
  with er have "list_all is_print evs" by simp
  with assms Inr er show ?thesis by (cases r) (simp_all add: check_status_def)
qed

text \<open>
  C1: whatever the replies are, when the first \<open>k\<close> status replies do not contain the
  job identifier and the next one does (for a mapping: the identifier is one of its keys),
  the loop stops at that reply, however many rounds it is allowed: it has made exactly
  \<open>k + 1\<close> status requests, one per reply without the identifier and the final one, has
  slept \<open>k\<close> times, and does nothing but print after the final request.
\<close>

theorem poll_stops_at_first_ready:
  assumes absent: "\<forall>i<k. \<exists>h. get_reply srv i = Inr h \<and> py_contains prompt_id h = Inr False"
    and ready: "get_reply srv k = Inr h" "py_contains prompt_id h = Inr True"
    and rounds: "k < n"
  shows "\<exists>evs oc. poll n srv prompt_id 0 = (evs, oc) \<and> oc \<noteq> Pending
           \<and> length (filter is_get evs) = k + 1
           \<and> length (filter is_sleep evs) = k
           \<and> is_get (last (filter (\<lambda>ev. \<not> is_print ev) evs))"
proof -
  from rounds obtain m where n: "n = k + Suc m" by (metis less_iff_Suc_add add_Suc_right)
  from absent have "\<forall>j<k. \<exists>h. get_reply srv (0 + j) = Inr h \<and> py_contains prompt_id h = Inr False"
    by simp
  from poll_absent_run [OF this, of "Suc m"]
  have run: "poll n srv prompt_id 0 =
           (concat (replicate k [Get (Fmt ''http://127.0.0.1:8000/history/'' prompt_id), Sleep 5])
              @ fst (poll (Suc m) srv prompt_id k),
            snd (poll (Suc m) srv prompt_id k))"
    by (simp add: n)
  from poll_ready_step [OF ready, of m] obtain evs oc where
    fin: "poll (Suc m) srv prompt_id k =
            (Get (Fmt ''http://127.0.0.1:8000/history/'' prompt_id)
               # Print (Lit ''Generation complete!'') # evs, oc)"
    and oc: "oc \<noteq> Pending" and pr: "list_all is_print evs"
    by blast
  from prints_are_no_requests [OF pr]
  have none: "filter is_get evs = []" "filter is_sleep evs = []" by simp_all
  have np: "filter (\<lambda>ev. \<not> is_print ev) evs = []"
    using pr by (induction evs) auto
  have cnt: "length (filter is_get (concat (replicate k [Get u, Sleep 5]))) = k"
            "length (filter is_sleep (concat (replicate k [Get u, Sleep 5]))) = k" for u
    by (induction k) simp_all
  show ?thesis
    using run fin oc none np cnt by simp
qed

theorem poll_stops_at_first_ready_witness:
  "\<exists>evs oc.
      poll 4 \<lparr>post_reply = Inr (JObj [(''prompt_id'', JStr ''abc'')]),
              get_reply = (\<lambda>i. if i < 3 then Inr (JObj [])
                                else Inr (JObj [(''abc'', JObj [(''outputs'', JObj [])])]))\<rparr>
        (JStr ''abc'') 0 = (evs, oc)
      \<and> oc \<noteq> Pending
      \<and> length (filter is_get evs) = 4
      \<and> length (filter is_sleep evs) = 3"
  using poll_stops_at_first_ready
    [of 3 "\<lparr>post_reply = Inr (JObj [(''prompt_id'', JStr ''abc'')]),
              get_reply = (\<lambda>i. if i < 3 then Inr (JObj [])
                                else Inr (JObj [(''abc'', JObj [(''outputs'', JObj [])])]))\<rparr>"
        "JStr ''abc''" "JObj [(''abc'', JObj [(''outputs'', JObj [])])]" 4]
  by auto

text \<open>
  C8: while every status reply lacks the job identifier the loop never stops: whatever
  the number \<open>n\<close> of rounds looked at, it has made \<open>n\<close> status requests, each followed
  by a sleep of 5, and it is still waiting for the next round.
\<close>

theorem poll_never_stops:
  assumes "\<forall>i. \<exists>h. get_reply srv i = Inr h \<and> py_contains prompt_id h = Inr False"
  shows "poll n srv prompt_id 0 =
           (concat (replicate n [Get (Fmt ''http://127.0.0.1:8000/history/'' prompt_id), Sleep 5]),
            Pending)"
proof -
  from assms have "\<forall>j<n. \<exists>h. get_reply srv (0 + j) = Inr h \<and> py_contains prompt_id h = Inr False"
    by simp
  from poll_absent_run [OF this, of 0] show ?thesis by simp
qed

theorem poll_never_stops_witness:
  "poll 3 \<lparr>post_reply = Inr (JObj [(''prompt_id'', JStr ''abc'')]),
            get_reply = (\<lambda>i. Inr (JObj [(''other'', JObj [])]))\<rparr> (JStr ''abc'') 0
   = ([Get (Fmt ''http://127.0.0.1:8000/history/'' (JStr ''abc'')), Sleep 5,
       Get (Fmt ''http://127.0.0.1:8000/history/'' (JStr ''abc'')), Sleep 5,
       Get (Fmt ''http://127.0.0.1:8000/history/'' (JStr ''abc'')), Sleep 5], Pending)"
  using poll_never_stops
    [of "\<lparr>post_reply = Inr (JObj [(''prompt_id'', JStr ''abc'')]),
            get_reply = (\<lambda>i. Inr (JObj [(''other'', JObj [])]))\<rparr>" "JStr ''abc''" 3]
  by (simp add: numeral_3_eq_3)

subsection \<open>Result extraction\<close>

lemma getitem_filename:
  "has_filename d \<Longrightarrow> py_getitem d (JStr ''filename'') = Inr (filename_of d)"
proof (cases d)
  case (JObj kvs)
  assume "has_filename d"
  with JObj have "''filename'' \<in> fst ` set kvs" by simp
  then obtain v where "map_of kvs ''filename'' = Some v"
    by (metis domD dom_map_of_conv_image_fst)
  with JObj show ?thesis by simp
qed simp_all

lemma print_videos_descriptors:
  "list_all has_filename vs \<Longrightarrow> print_videos vs = (map video_line vs, None)"
  by (induction vs) (simp_all add: getitem_filename)

lemma node_videos_ok:
  assumes "map_of nodes k = Some slot" and "video_slot_ok slot"
  shows "node_videos (JObj nodes) (JStr k) = (map video_line (videos_of slot), None)"
proof (cases slot)
  case (JObj entries)
  show ?thesis
  proof (cases "map_of entries ''videos''")
    case None
    then have "''videos'' \<notin> fst ` set entries" by (simp add: map_of_eq_None_iff)
    with None JObj assms show ?thesis by (simp add: node_videos_def)
  next
    case (Some v)
    then have k: "''videos'' \<in> fst ` set entries"
      by (metis map_of_eq_None_iff option.distinct(1))
    from Some JObj assms obtain vs where v: "v = JList vs" and ok: "list_all has_filename vs"
      by (cases v) simp_all
    from k Some JObj assms v ok show ?thesis
      by (simp add: node_videos_def print_videos_descriptors)
  qed
qed (use assms in simp_all)

lemma for_nodes_ok:
  assumes "\<forall>(k, slot) \<in> set xs. map_of nodes k = Some slot \<and> video_slot_ok slot"
  shows "for_nodes (JObj nodes) (map (\<lambda>(k, v). JStr k) xs)
           = (map video_line (concat (map (\<lambda>(k, slot). videos_of slot) xs)), None)"
  using assms
proof (induction xs)
  case Nil
  show ?case by simp
next
  case (Cons x xs)
  obtain k slot where x: "x = (k, slot)" by (cases x)
  with Cons.prems have "map_of nodes k = Some slot" "video_slot_ok slot" by simp_all
  then have "node_videos (JObj nodes) (JStr k) = (map video_line (videos_of slot), None)"
    by (rule node_videos_ok)
  moreover from Cons have "for_nodes (JObj nodes) (map (\<lambda>(k, v). JStr k) xs)
           = (map video_line (concat (map (\<lambda>(k, slot). videos_of slot) xs)), None)"
    by simp
  ultimately show ?case by (simp add: x)
qed

text \<open>
  C2, as the specification words it, fails: a slot that holds its descriptors under
  another key than \<^verbatim>\<open>videos\<close> is a list of entries with a filename field, yet
  nothing is printed for it.
\<close>

theorem extraction_counterexample:
  "length (fst (extract_results
      (JObj [(''outputs'', JObj [(''9'', JObj [(''images'', JList [JObj [(''filename'', JStr ''a.png'')]])])])])))
   \<noteq> length (spec_artifact_descriptors
      (JObj [(''outputs'', JObj [(''9'', JObj [(''images'', JList [JObj [(''filename'', JStr ''a.png'')]])])])]))"
  by (simp add: extract_results_def node_videos_def spec_artifact_descriptors_def)

text \<open>
  C2, amended: for every result record whose \<^verbatim>\<open>outputs\<close> field is a mapping
  from node ids to slots, each slot a mapping that, when it has the key
  \<^verbatim>\<open>videos\<close>, holds there a list of mappings with a \<^verbatim>\<open>filename\<close>
  field: extraction prints exactly one line per entry of those lists, in order, with the
  entry's filename, no line when no slot has the key, and raises nothing.
\<close>

theorem extraction_prints_videos:
  assumes "py_getitem rcd (JStr ''outputs'') = Inr (JObj nodes)"
    and "distinct (map fst nodes)"
    and "list_all video_slot_ok (map snd nodes)"
  shows "extract_results rcd
           = (map (\<lambda>d. Print (Fmt ''Video saved as: '' (filename_of d)))
                  (concat (map (\<lambda>(node_id, slot). videos_of slot) nodes)), None)
         \<and> length (fst (extract_results rcd))
           = sum_list (map (\<lambda>(node_id, slot). length (videos_of slot)) nodes)"
proof -
  have "\<forall>(k, slot) \<in> set nodes. map_of nodes k = Some slot \<and> video_slot_ok slot"
    using assms(2,3) by (auto simp: list_all_iff)
  from for_nodes_ok [OF this] assms(1)
  have run: "extract_results rcd
           = (map video_line (concat (map (\<lambda>(node_id, slot). videos_of slot) nodes)), None)"
    by (simp add: extract_results_def)
  have "length (concat (map (\<lambda>(node_id, slot). videos_of slot) nodes))
          = sum_list (map (\<lambda>(node_id, slot). length (videos_of slot)) nodes)"
    by (induction nodes) (simp_all split: prod.splits)
  with run show ?thesis by simp
qed

theorem extraction_prints_videos_witness:
  "extract_results
     (JObj [(''outputs'', JObj [
        (''1'', JObj []),
        (''2'', JObj [(''videos'', JList [
           JObj [(''filename'', JStr ''splash_gen_00001.mp4''), (''subfolder'', JStr ''''),
                 (''type'', JStr ''output'')]])])])])
   = ([Print (Fmt ''Video saved as: '' (JStr ''splash_gen_00001.mp4''))], None)"
  using extraction_prints_videos
    [of "JObj [(''outputs'', JObj [
        (''1'', JObj []),
        (''2'', JObj [(''videos'', JList [
           JObj [(''filename'', JStr ''splash_gen_00001.mp4''), (''subfolder'', JStr ''''),
                 (''type'', JStr ''output'')]])])])]"
        "[(''1'', JObj []),
        (''2'', JObj [(''videos'', JList [
           JObj [(''filename'', JStr ''splash_gen_00001.mp4''), (''subfolder'', JStr ''''),
                 (''type'', JStr ''output'')]])])]"]
  by simp

subsection \<open>Submission and the error handler\<close>

lemma polled_ids_append: "polled_ids (xs @ ys) = polled_ids xs @ polled_ids ys"
  by (induction xs rule: polled_ids.induct) simp_all

lemma polled_ids_prints: "list_all is_print evs \<Longrightarrow> polled_ids evs = []"
  by (induction evs rule: polled_ids.induct) simp_all

lemma poll_requests:
  "filter is_post (fst (poll n srv prompt_id i)) = []
   \<and> set (polled_ids (fst (poll n srv prompt_id i))) \<subseteq> {prompt_id}"
proof (induction n arbitrary: i)
  case 0
  show ?case by simp
next
  case (Suc n)
  have ex: "filter is_post (fst (extract_results rcd)) = [] \<and> polled_ids (fst (extract_results rcd)) = []" for rcd
    using extract_results_prints [of rcd] by (simp add: prints_are_no_requests polled_ids_prints)
  show ?case
  proof (cases "get_reply srv i")
    case (Inl e)
    then show ?thesis by (simp add: check_status_def)
  next
    case (Inr history)
    show ?thesis
    proof (cases "py_contains prompt_id history")
      case (Inl e)
      with Inr show ?thesis by (simp add: check_status_def)
    next
      case c: (Inr b)
      show ?thesis
      proof (cases b)
        case True
        show ?thesis
        proof (cases "py_getitem history prompt_id")
          case (Inl e)
          with Inr c True show ?thesis by (simp add: check_status_def)
        next
          case g: (Inr rcd)
          obtain evs r where er: "extract_results rcd = (evs, r)" by (cases "extract_results rcd")
          with ex [of rcd] have "filter is_post evs = []" "polled_ids evs = []" by simp_all
          with Inr c True g er show ?thesis
            by (cases r) (simp_all add: check_status_def)
        qed
      next
        case False
        obtain evs oc where p: "poll n srv prompt_id (Suc i) = (evs, oc)"
          by (cases "poll n srv prompt_id (Suc i)")
        with Suc [of "Suc i"] have "filter is_post evs = []" "set (polled_ids evs) \<subseteq> {prompt_id}"
          by simp_all
        with Inr c False p show ?thesis by (simp add: check_status_def)
      qed
    qed
  qed
qed

lemma poll_first_request:
  "\<exists>evs. fst (poll (Suc n) srv prompt_id i) = Get (Fmt ''http://127.0.0.1:8000/history/'' prompt_id) # evs"
  by (auto simp: check_status_def split: sum.splits bool.splits prod.splits option.splits)

lemma post_failure_raises:
  "post_reply srv = Inl e \<Longrightarrow>
   try_body n srv = ([Print (Lit ''Queuing generation...''),
                      Post ''http://127.0.0.1:8000/prompt'' (JObj [(''prompt'', workflow)])], Raised e)"
  by (simp add: try_body_def queue_prompt_def)

lemma missing_identifier_raises:
  "post_reply srv = Inr result \<Longrightarrow> py_getitem result (JStr ''prompt_id'') = Inl e \<Longrightarrow>
   try_body n srv = ([Print (Lit ''Queuing generation...''),
                      Post ''http://127.0.0.1:8000/prompt'' (JObj [(''prompt'', workflow)])], Raised e)"
  by (simp add: try_body_def queue_prompt_def)

lemma identifier_starts_polling:
  "post_reply srv = Inr result \<Longrightarrow> py_getitem result (JStr ''prompt_id'') = Inr prompt_id \<Longrightarrow>
   try_body n srv =
     (Print (Lit ''Queuing generation...'')
        # Post ''http://127.0.0.1:8000/prompt'' (JObj [(''prompt'', workflow)])
        # Print (Fmt ''Prompt queued! ID: '' prompt_id)
        # Print (Lit ''Waiting for completion (this may take a few minutes)...'')
        # fst (poll n srv prompt_id 0),
      snd (poll n srv prompt_id 0))"
  by (simp add: try_body_def queue_prompt_def split: prod.splits)

lemma comfy_gen_events:
  "\<exists>tl. fst (comfy_gen n srv) = fst (try_body n srv) @ tl \<and> list_all is_print tl"
  by (cases "try_body n srv"; cases "snd (try_body n srv)") (auto simp: comfy_gen_def)

subsection \<open>Every exception reaches the handler\<close>

text \<open>
  An exception raised in a later pass of a loop leaves the loop after the lines that the
  earlier passes printed.
\<close>

lemma print_videos_append:
  "print_videos (as @ bs) =
     (case print_videos as of
        (ys, Some e) \<Rightarrow> (ys, Some e)
      | (ys, None) \<Rightarrow> (case print_videos bs of (zs, r) \<Rightarrow> (ys @ zs, r)))"
  by (induction as) (auto split: sum.splits prod.splits option.splits)

lemma print_videos_raise:
  assumes "m < length vs" and "print_videos (take m vs) = (ys, None)"
    and "py_getitem (vs ! m) (JStr ''filename'') = Inl e"
  shows "print_videos vs = (ys, Some e)"
proof -
  from assms(1) have "vs = take m vs @ vs ! m # drop (Suc m) vs"
    by (rule id_take_nth_drop)
  then have "print_videos vs = print_videos (take m vs @ vs ! m # drop (Suc m) vs)" by simp
  also have "\<dots> = (ys, Some e)"
    using assms(2,3) by (simp add: print_videos_append)
  finally show ?thesis .
qed

lemma for_nodes_append:
  "for_nodes outputs (as @ bs) =
     (case for_nodes outputs as of
        (xs, Some e) \<Rightarrow> (xs, Some e)
      | (xs, None) \<Rightarrow> (case for_nodes outputs bs of (zs, r) \<Rightarrow> (xs @ zs, r)))"
  by (induction as) (auto split: sum.splits prod.splits option.splits)

lemma for_nodes_raise:
  assumes "j < length ids" and "for_nodes outputs (take j ids) = (xs, None)"
    and "node_videos outputs (ids ! j) = (ys, Some e)"
  shows "for_nodes outputs ids = (xs @ ys, Some e)"
proof -
  from assms(1) have "ids = take j ids @ ids ! j # drop (Suc j) ids"
    by (rule id_take_nth_drop)
  then have "for_nodes outputs ids = for_nodes outputs (take j ids @ ids ! j # drop (Suc j) ids)"
    by simp
  also have "\<dots> = (xs @ ys, Some e)"
    using assms(2,3) by (simp add: for_nodes_append)
  finally show ?thesis .
qed

lemma extract_results_raise:
  assumes "py_getitem rcd (JStr ''outputs'') = Inr outputs" and "py_iter outputs = Inr ids"
    and "j < length ids" and "for_nodes outputs (take j ids) = (xs, None)"
    and "node_videos outputs (ids ! j) = (ys, Some e)"
  shows "extract_results rcd = (xs @ ys, Some e)"
  using assms(1,2) for_nodes_raise [OF assms(3,4,5)] by (simp add: extract_results_def)

lemma round_raises_in_extraction:
  assumes "get_reply srv k = Inr h" and "py_contains prompt_id h = Inr True"
    and "py_getitem h prompt_id = Inr rcd" and "extract_results rcd = (zs, Some e)"
  shows "poll (Suc m) srv prompt_id k = (status_get prompt_id # complete_line # zs, Raised e)"
  using assms by (simp add: check_status_def)

lemma run_raises:
  assumes "post_reply srv = Inr result"
    and "py_getitem result (JStr ''prompt_id'') = Inr prompt_id"
    and "\<forall>i<k. \<exists>h. get_reply srv i = Inr h \<and> py_contains prompt_id h = Inr False"
    and "k < n"
    and "\<And>m. poll (Suc m) srv prompt_id k = (evs, Raised e)"
  shows "comfy_gen n srv =
           (submit_events @ queued_events prompt_id @ waiting_rounds k prompt_id @ evs @ [error_line e],
            Some (Exited 0))"
proof -
  from assms(4) obtain m where n: "n = k + Suc m" by (metis less_iff_Suc_add add_Suc_right)
  from assms(3) have "\<forall>j<k. \<exists>h. get_reply srv (0 + j) = Inr h \<and> py_contains prompt_id h = Inr False"
    by simp
  from poll_absent_run [OF this, of "Suc m"] assms(5) [of m]
  have "poll n srv prompt_id 0 = (waiting_rounds k prompt_id @ evs, Raised e)"
    by (simp add: n)
  with assms(1,2) show ?thesis
    by (simp add: comfy_gen_def try_body_def queue_prompt_def)
qed

lemma fail_post:
  assumes "post_reply srv = Inl e"
  shows "comfy_gen n srv = (submit_events @ [error_line e], Some (Exited 0))"
  using assms by (simp add: comfy_gen_def try_body_def queue_prompt_def)

lemma fail_identifier:
  assumes "post_reply srv = Inr result" and "py_getitem result (JStr ''prompt_id'') = Inl e"
  shows "comfy_gen n srv = (submit_events @ [error_line e], Some (Exited 0))"
  using assms by (simp add: comfy_gen_def try_body_def queue_prompt_def)

lemma fail_status:
  assumes "post_reply srv = Inr result"
    and "py_getitem result (JStr ''prompt_id'') = Inr prompt_id"
    and "\<forall>i<k. \<exists>h. get_reply srv i = Inr h \<and> py_contains prompt_id h = Inr False"
    and "k < n"
    and "get_reply srv k = Inl e"
  shows "comfy_gen n srv =
           (submit_events @ queued_events prompt_id @ waiting_rounds k prompt_id
              @ [status_get prompt_id, error_line e], Some (Exited 0))"
proof -
  have "poll (Suc m) srv prompt_id k = ([status_get prompt_id], Raised e)" for m
    using assms(5) by (simp add: check_status_def)
  from run_raises [OF assms(1-4) this] show ?thesis by simp
qed

lemma fail_contains:
  assumes "post_reply srv = Inr result"
    and "py_getitem result (JStr ''prompt_id'') = Inr prompt_id"
    and "\<forall>i<k. \<exists>h. get_reply srv i = Inr h \<and> py_contains prompt_id h = Inr False"
    and "k < n"
    and "get_reply srv k = Inr history"
    and "py_contains prompt_id history = Inl e"
  shows "comfy_gen n srv =
           (submit_events @ queued_events prompt_id @ waiting_rounds k prompt_id
              @ [status_get prompt_id, error_line e], Some (Exited 0))"
proof -
  have "poll (Suc m) srv prompt_id k = ([status_get prompt_id], Raised e)" for m
    using assms(5,6) by (simp add: check_status_def)
  from run_raises [OF assms(1-4) this] show ?thesis by simp
qed

lemma fail_record:
  assumes "post_reply srv = Inr result"
    and "py_getitem result (JStr ''prompt_id'') = Inr prompt_id"
    and "\<forall>i<k. \<exists>h. get_reply srv i = Inr h \<and> py_contains prompt_id h = Inr False"
    and "k < n"
    and "get_reply srv k = Inr history"
    and "py_contains prompt_id history = Inr True"
    and "py_getitem history prompt_id = Inl e"
  shows "comfy_gen n srv =
           (submit_events @ queued_events prompt_id @ waiting_rounds k prompt_id
              @ [status_get prompt_id, complete_line, error_line e], Some (Exited 0))"
proof -
  have "poll (Suc m) srv prompt_id k = ([status_get prompt_id, complete_line], Raised e)" for m
    using assms(5,6,7) by (simp add: check_status_def)
  from run_raises [OF assms(1-4) this] show ?thesis by simp
qed

lemma fail_extraction:
  assumes "post_reply srv = Inr result"
    and "py_getitem result (JStr ''prompt_id'') = Inr prompt_id"
    and "\<forall>i<k. \<exists>h. get_reply srv i = Inr h \<and> py_contains prompt_id h = Inr False"
    and "k < n"
    and "get_reply srv k = Inr history"
    and "py_contains prompt_id history = Inr True"
    and "py_getitem history prompt_id = Inr rcd"
    and "extract_results rcd = (zs, Some e)"
  shows "comfy_gen n srv =
           (submit_events @ queued_events prompt_id @ waiting_rounds k prompt_id
              @ [status_get prompt_id, complete_line] @ zs @ [error_line e], Some (Exited 0))"
proof -
  have "poll (Suc m) srv prompt_id k = (status_get prompt_id # complete_line # zs, Raised e)" for m
    by (rule round_raises_in_extraction [OF assms(5-8)])
  from run_raises [OF assms(1-4) this] show ?thesis by simp
qed

lemma extract_outputs_raise:
  "py_getitem rcd (JStr ''outputs'') = Inl e \<Longrightarrow> extract_results rcd = ([], Some e)"
  by (simp add: extract_results_def)

lemma extract_iter_raise:
  "py_getitem rcd (JStr ''outputs'') = Inr outputs \<Longrightarrow> py_iter outputs = Inl e \<Longrightarrow>
   extract_results rcd = ([], Some e)"
  by (simp add: extract_results_def)

lemma node_slot_raise:
  "py_getitem outputs node_id = Inl e \<Longrightarrow> node_videos outputs node_id = ([], Some e)"
  by (simp add: node_videos_def)

lemma node_contains_raise:
  "py_getitem outputs node_id = Inr slot \<Longrightarrow> py_contains (JStr ''videos'') slot = Inl e \<Longrightarrow>
   node_videos outputs node_id = ([], Some e)"
  by (simp add: node_videos_def)

lemma node_videos_key_raise:
  "py_getitem outputs node_id = Inr slot \<Longrightarrow> py_contains (JStr ''videos'') slot = Inr True \<Longrightarrow>
   py_getitem slot (JStr ''videos'') = Inl e \<Longrightarrow>
   node_videos outputs node_id = ([], Some e)"
  by (simp add: node_videos_def)

lemma node_iter_raise:
  "py_getitem outputs node_id = Inr slot \<Longrightarrow> py_contains (JStr ''videos'') slot = Inr True \<Longrightarrow>
   py_getitem slot (JStr ''videos'') = Inr videos \<Longrightarrow> py_iter videos = Inl e \<Longrightarrow>
   node_videos outputs node_id = ([], Some e)"
  by (simp add: node_videos_def)

lemma node_filename_raise:
  "py_getitem outputs node_id = Inr slot \<Longrightarrow> py_contains (JStr ''videos'') slot = Inr True \<Longrightarrow>
   py_getitem slot (JStr ''videos'') = Inr videos \<Longrightarrow> py_iter videos = Inr vs \<Longrightarrow>
   m < length vs \<Longrightarrow> print_videos (take m vs) = (ys, None) \<Longrightarrow>
   py_getitem (vs ! m) (JStr ''filename'') = Inl e \<Longrightarrow>
   node_videos outputs node_id = (ys, Some e)"
  by (simp add: node_videos_def print_videos_raise)

lemma exit_status: "snd (comfy_gen n srv) \<in> {None, Some (Exited 0)}"
proof -
  obtain evs oc where b: "try_body n srv = (evs, oc)"
    by (cases "try_body n srv")
  show ?thesis by (cases oc) (simp_all add: comfy_gen_def b)
qed

text \<open>
  C7: wherever an exception is raised in the body, the run ends with the line
  \<open>Error: e\<close> printed after everything done before, and with exit code 0. The
  statement follows the body statement by statement: the POST fails (no connection, or
  a reply that is not JSON); the reply has no \<^verbatim>\<open>prompt_id\<close>; then, in the
  round that follows \<open>k\<close> rounds without the identifier: the status request fails,
  the membership test fails, the record or its \<^verbatim>\<open>outputs\<close> cannot be read or
  iterated; then, at node \<open>j\<close> after the nodes before it went through: the slot, its
  membership test, its \<^verbatim>\<open>videos\<close> cannot be read or iterated; and at video
  \<open>m\<close> after the videos before it were printed: it has no \<^verbatim>\<open>filename\<close>.
  Whatever exception leaves the body is printed by the handler, and no run ends in any
  other way than exit code 0.
\<close>

theorem handler_catches_everything:
  "(post_reply srv = Inl e \<longrightarrow>
      comfy_gen n srv = (submit_events @ [error_line e], Some (Exited 0)))
   \<and> (post_reply srv = Inr result \<longrightarrow>
       (py_getitem result (JStr ''prompt_id'') = Inl e \<longrightarrow>
          comfy_gen n srv = (submit_events @ [error_line e], Some (Exited 0)))
     \<and> (py_getitem result (JStr ''prompt_id'') = Inr prompt_id \<longrightarrow>
        (\<forall>i<k. \<exists>h. get_reply srv i = Inr h \<and> py_contains prompt_id h = Inr False) \<longrightarrow>
        k < n \<longrightarrow>
          (get_reply srv k = Inl e \<longrightarrow>
             comfy_gen n srv =
               (submit_events @ queued_events prompt_id @ waiting_rounds k prompt_id
                  @ [status_get prompt_id, error_line e], Some (Exited 0)))
        \<and> (get_reply srv k = Inr history \<longrightarrow>
            (py_contains prompt_id history = Inl e \<longrightarrow>
               comfy_gen n srv =
                 (submit_events @ queued_events prompt_id @ waiting_rounds k prompt_id
                    @ [status_get prompt_id, error_line e], Some (Exited 0)))
          \<and> (py_contains prompt_id history = Inr True \<longrightarrow>
              (py_getitem history prompt_id = Inl e \<longrightarrow>
                 comfy_gen n srv =
                   (submit_events @ queued_events prompt_id @ waiting_rounds k prompt_id
                      @ [status_get prompt_id, complete_line, error_line e], Some (Exited 0)))
            \<and> (py_getitem history prompt_id = Inr rcd \<longrightarrow>
                (py_getitem rcd (JStr ''outputs'') = Inl e \<longrightarrow>
                   comfy_gen n srv =
                     (submit_events @ queued_events prompt_id @ waiting_rounds k prompt_id
                        @ [status_get prompt_id, complete_line, error_line e], Some (Exited 0)))
              \<and> (py_getitem rcd (JStr ''outputs'') = Inr outputs \<longrightarrow>
                  (py_iter outputs = Inl e \<longrightarrow>
                     comfy_gen n srv =
                       (submit_events @ queued_events prompt_id @ waiting_rounds k prompt_id
                          @ [status_get prompt_id, complete_line, error_line e], Some (Exited 0)))
                \<and> (py_iter outputs = Inr node_ids \<longrightarrow> j < length node_ids \<longrightarrow>
                    for_nodes outputs (take j node_ids) = (xs, None) \<longrightarrow>
                    (py_getitem outputs (node_ids ! j) = Inl e \<longrightarrow>
                       comfy_gen n srv =
                         (submit_events @ queued_events prompt_id @ waiting_rounds k prompt_id
                            @ [status_get prompt_id, complete_line] @ xs @ [error_line e],
                          Some (Exited 0)))
                  \<and> (py_getitem outputs (node_ids ! j) = Inr slot \<longrightarrow>
                      (py_contains (JStr ''videos'') slot = Inl e \<longrightarrow>
                         comfy_gen n srv =
                           (submit_events @ queued_events prompt_id @ waiting_rounds k prompt_id
                              @ [status_get prompt_id, complete_line] @ xs @ [error_line e],
                            Some (Exited 0)))
                    \<and> (py_contains (JStr ''videos'') slot = Inr True \<longrightarrow>
                        (py_getitem slot (JStr ''videos'') = Inl e \<longrightarrow>
                           comfy_gen n srv =
                             (submit_events @ queued_events prompt_id @ waiting_rounds k prompt_id
                                @ [status_get prompt_id, complete_line] @ xs @ [error_line e],
                              Some (Exited 0)))
                      \<and> (py_getitem slot (JStr ''videos'') = Inr videos \<longrightarrow>
                          (py_iter videos = Inl e \<longrightarrow>
                             comfy_gen n srv =
                               (submit_events @ queued_events prompt_id @ waiting_rounds k prompt_id
                                  @ [status_get prompt_id, complete_line] @ xs @ [error_line e],
                                Some (Exited 0)))
                        \<and> (py_iter videos = Inr vs \<longrightarrow> m < length vs \<longrightarrow>
                            print_videos (take m vs) = (ys, None) \<longrightarrow>
                            py_getitem (vs ! m) (JStr ''filename'') = Inl e \<longrightarrow>
                              comfy_gen n srv =
                                (submit_events @ queued_events prompt_id
                                   @ waiting_rounds k prompt_id
                                   @ [status_get prompt_id, complete_line] @ xs @ ys
                                   @ [error_line e],
                                 Some (Exited 0)))))))))))))
   \<and> (try_body n srv = (evs, Raised e) \<longrightarrow>
        comfy_gen n srv = (evs @ [error_line e], Some (Exited 0)))
   \<and> snd (comfy_gen n srv) \<in> {None, Some (Exited 0)}"
  apply (intro conjI impI)
  subgoal premises p by (rule fail_post [OF p])
  subgoal premises p by (rule fail_identifier [OF p])
  subgoal premises p by (rule fail_status [OF p])
  subgoal premises p by (rule fail_contains [OF p])
  subgoal premises p by (rule fail_record [OF p])
  subgoal premises p
    using fail_extraction [OF p(1-7) extract_outputs_raise [OF p(8)]] by simp
  subgoal premises p
    using fail_extraction [OF p(1-7) extract_iter_raise [OF p(8,9)]] by simp
  subgoal premises p
    using fail_extraction [OF p(1-7)
            extract_results_raise [OF p(8-11) node_slot_raise [OF p(12)]]] by simp
  subgoal premises p
    using fail_extraction [OF p(1-7)
            extract_results_raise [OF p(8-11) node_contains_raise [OF p(12,13)]]] by simp
  subgoal premises p
    using fail_extraction [OF p(1-7)
            extract_results_raise [OF p(8-11) node_videos_key_raise [OF p(12-14)]]] by simp
  subgoal premises p
    using fail_extraction [OF p(1-7)
            extract_results_raise [OF p(8-11) node_iter_raise [OF p(12-15)]]] by simp
  subgoal premises p
    using fail_extraction [OF p(1-7)
            extract_results_raise [OF p(8-11) node_filename_raise [OF p(12-18)]]] by simp
  subgoal premises p using p by (simp add: comfy_gen_def)
  subgoal by (rule exit_status)
  done

theorem handler_catches_everything_witness:
  "comfy_gen 3
     \<lparr>post_reply = Inr (JObj [(''prompt_id'', JStr ''abc'')]),
      get_reply = (\<lambda>i. if i < 2 then Inr (JObj [])
        else Inr (JObj [(''abc'', JObj [(''outputs'', JObj [
               (''1'', JObj [(''videos'', JList [JObj [(''filename'', JStr ''a.mp4'')]])]),
               (''2'', JObj [(''videos'', JList [JObj [(''filename'', JStr ''b.mp4'')],
                                                 JObj [(''name'', JStr ''c.mp4'')]])])])])]))\<rparr>
   = ([Print (Lit ''Queuing generation...''),
       Post ''http://127.0.0.1:8000/prompt'' (JObj [(''prompt'', workflow)]),
       Print (Fmt ''Prompt queued! ID: '' (JStr ''abc'')),
       Print (Lit ''Waiting for completion (this may take a few minutes)...''),
       Get (Fmt ''http://127.0.0.1:8000/history/'' (JStr ''abc'')), Sleep 5,
       Get (Fmt ''http://127.0.0.1:8000/history/'' (JStr ''abc'')), Sleep 5,
       Get (Fmt ''http://127.0.0.1:8000/history/'' (JStr ''abc'')),
       Print (Lit ''Generation complete!''),
       Print (Fmt ''Video saved as: '' (JStr ''a.mp4'')),
       Print (Fmt ''Video saved as: '' (JStr ''b.mp4'')),
       Print (FmtE ''Error: '' (KeyError (JStr ''filename'')))],
      Some (Exited 0))"
proof -
  let ?vs2 = "[JObj [(''filename'', JStr ''b.mp4'')], JObj [(''name'', JStr ''c.mp4'')]]"
  let ?slot1 = "JObj [(''videos'', JList [JObj [(''filename'', JStr ''a.mp4'')]])]"
  let ?slot2 = "JObj [(''videos'', JList ?vs2)]"
  let ?outputs = "JObj [(''1'', ?slot1), (''2'', ?slot2)]"
  let ?rcd = "JObj [(''outputs'', ?outputs)]"
  let ?history = "JObj [(''abc'', ?rcd)]"
  let ?result = "JObj [(''prompt_id'', JStr ''abc'')]"
  let ?srv = "\<lparr>post_reply = Inr ?result,
               get_reply = (\<lambda>i. if i < (2::nat) then Inr (JObj []) else Inr ?history)\<rparr>"
  have absent: "\<forall>i<2. \<exists>h. get_reply ?srv i = Inr h \<and> py_contains (JStr ''abc'') h = Inr False"
    by simp
  have first: "for_nodes ?outputs (take 1 [JStr ''1'', JStr ''2''])
                 = ([Print (Fmt ''Video saved as: '' (JStr ''a.mp4''))], None)"
    by (simp add: node_videos_def)
  have second: "print_videos (take 1 ?vs2)
                 = ([Print (Fmt ''Video saved as: '' (JStr ''b.mp4''))], None)"
    by simp
  from handler_catches_everything
    [where srv = ?srv and n = 3 and e = "KeyError (JStr ''filename'')"
       and result = ?result and prompt_id = "JStr ''abc''" and k = 2
       and history = ?history and rcd = ?rcd and outputs = ?outputs
       and node_ids = "[JStr ''1'', JStr ''2'']" and j = 1
       and xs = "[Print (Fmt ''Video saved as: '' (JStr ''a.mp4''))]"
       and slot = ?slot2 and videos = "JList ?vs2" and vs = ?vs2 and m = 1
       and ys = "[Print (Fmt ''Video saved as: '' (JStr ''b.mp4''))]"]
    absent first second
  show ?thesis by (simp add: numeral_2_eq_2)
qed

text \<open>
  C3, as stated, fails: a reply whose \<^verbatim>\<open>prompt_id\<close> is the empty string is
  accepted, and the flow polls with the empty identifier without printing any error.
\<close>

theorem empty_identifier_counterexample:
  "\<not> list_all nonempty_id
        (polled_ids (fst (comfy_gen 1 \<lparr>post_reply = Inr (JObj [(''prompt_id'', JStr '''')]),
                                        get_reply = (\<lambda>i. Inr (JObj []))\<rparr>)))
   \<and> \<not> list_ex is_error_line
        (fst (comfy_gen 1 \<lparr>post_reply = Inr (JObj [(''prompt_id'', JStr '''')]),
                            get_reply = (\<lambda>i. Inr (JObj []))\<rparr>))"
  by (simp add: comfy_gen_def try_body_def queue_prompt_def check_status_def)

text \<open>
  C3, amended: every run sends exactly one POST. When the POST fails, or its reply has no
  \<^verbatim>\<open>prompt_id\<close> that can be read, no status request is sent, the error is printed
  and the process ends with exit code 0. Otherwise the value of the field, whatever it is,
  is the identifier: every status request is made for it, and the first round of the loop
  makes one.
\<close>

theorem submission_posts_once:
  "length (filter is_post (fst (comfy_gen n srv))) = 1
   \<and> (case post_reply srv of
         Inl e \<Rightarrow>
           comfy_gen n srv =
             ([Print (Lit ''Queuing generation...''),
               Post ''http://127.0.0.1:8000/prompt'' (JObj [(''prompt'', workflow)]),
               Print (FmtE ''Error: '' e)], Some (Exited 0))
       | Inr result \<Rightarrow>
           (case py_getitem result (JStr ''prompt_id'') of
              Inl e \<Rightarrow>
                comfy_gen n srv =
                  ([Print (Lit ''Queuing generation...''),
                    Post ''http://127.0.0.1:8000/prompt'' (JObj [(''prompt'', workflow)]),
                    Print (FmtE ''Error: '' e)], Some (Exited 0))
            | Inr prompt_id \<Rightarrow>
                set (polled_ids (fst (comfy_gen n srv))) \<subseteq> {prompt_id}
                \<and> (0 < n \<longrightarrow> prompt_id \<in> set (polled_ids (fst (comfy_gen n srv))))))"
proof (cases "post_reply srv")
  case (Inl e)
  from post_failure_raises [OF Inl, of n] Inl show ?thesis
    by (simp add: comfy_gen_def)
next
  case (Inr result)
  show ?thesis
  proof (cases "py_getitem result (JStr ''prompt_id'')")
    case (Inl e)
    from missing_identifier_raises [OF Inr Inl, of n] Inr Inl show ?thesis
      by (simp add: comfy_gen_def)
  next
    case g: (Inr prompt_id)
    note body = identifier_starts_polling [OF Inr g, of n]
    obtain tl where tl: "fst (comfy_gen n srv) = fst (try_body n srv) @ tl" "list_all is_print tl"
      using comfy_gen_events by blast
    from tl(2) have tl0: "filter is_post tl = []" "polled_ids tl = []"
      by (simp_all add: prints_are_no_requests polled_ids_prints)
    from poll_requests [of n srv prompt_id 0]
    have pr: "filter is_post (fst (poll n srv prompt_id 0)) = []"
      "set (polled_ids (fst (poll n srv prompt_id 0))) \<subseteq> {prompt_id}" by simp_all
    have one: "length (filter is_post (fst (comfy_gen n srv))) = 1"
      by (simp add: tl(1) body tl0 pr)
    have ids: "polled_ids (fst (comfy_gen n srv)) = polled_ids (fst (poll n srv prompt_id 0))"
      by (simp add: tl(1) body tl0 polled_ids_append)
    have pos: "prompt_id \<in> set (polled_ids (fst (poll n srv prompt_id 0)))" if "0 < n"
    proof -
      from that obtain m where "n = Suc m" by (cases n) simp_all
      with poll_first_request [of m srv prompt_id 0] show ?thesis by auto
    qed
    from one ids pr(2) pos Inr g show ?thesis by simp
  qed
qed

theorem submission_posts_once_witness:
  "set (polled_ids (fst (comfy_gen 2 \<lparr>post_reply = Inr (JObj [(''prompt_id'', JStr ''abc'')]), get_reply = (\<lambda>i. Inr (JObj []))\<rparr>))) \<subseteq> {JStr ''abc''}
   \<and> JStr ''abc'' \<in> set (polled_ids (fst (comfy_gen 2 \<lparr>post_reply = Inr (JObj [(''prompt_id'', JStr ''abc'')]), get_reply = (\<lambda>i. Inr (JObj []))\<rparr>)))"
  using submission_posts_once [of 2 "\<lparr>post_reply = Inr (JObj [(''prompt_id'', JStr ''abc'')]), get_reply = (\<lambda>i. Inr (JObj []))\<rparr>"]
  by simp

end
